theory Spec2Isabelle
  imports Complex_Main "HOL-Library.Sublist"
begin

section \<open>Data model of \<^verbatim>\<open>chat.py\<close>\<close>

text \<open>
  \<^verbatim>\<open>class SouthIndianLanguage(Enum)\<close> (chat.py, lines 19-26): six members, each with a
  lower-case string value.
\<close>

datatype SouthIndianLanguage = TAMIL | TELUGU | KANNADA | MALAYALAM | ENGLISH | MIXED

fun language_value :: "SouthIndianLanguage \<Rightarrow> string" where
  "language_value TAMIL = ''tamil''"
| "language_value TELUGU = ''telugu''"
| "language_value KANNADA = ''kannada''"
| "language_value MALAYALAM = ''malayalam''"
| "language_value ENGLISH = ''english''"
| "language_value MIXED = ''mixed''"

text \<open>
  The values \<^verbatim>\<open>json.loads\<close> can return. A Python dict is an association list read
  through \<open>map_of\<close>; a float is a real number or one of the three non-finite constants
  that \<^verbatim>\<open>json.loads\<close> accepts. The dataclass \<^verbatim>\<open>LanguageDetectionResult\<close> performs no
  type check on construction, so the fields \<^verbatim>\<open>confidence\<close>, \<^verbatim>\<open>is_code_mixed\<close> and
  \<^verbatim>\<open>mix_ratio\<close> hold whatever value the parsed object carried.
\<close>

datatype json =
    JNull
  | JBool bool
  | JInt int
  | JFloat real
  | JNaN
  | JInfinity
  | JNegInfinity
  | JStr string
  | JList "json list"
  | JDict "(string \<times> json) list"

text \<open>The exceptions the modelled code can meet; all are subclasses of \<^verbatim>\<open>Exception\<close>.\<close>

datatype exn = APIError | JSONDecodeError | TypeError | KeyError | ValueError | AttributeError

text \<open>Sequencing of statements that may raise: the first exception ends the block.\<close>

definition and_then :: "exn + 'a \<Rightarrow> ('a \<Rightarrow> exn + 'b) \<Rightarrow> exn + 'b" where
  "and_then m f = (case m of Inl e \<Rightarrow> Inl e | Inr x \<Rightarrow> f x)"

text \<open>Python truthiness, as used by \<^verbatim>\<open>if v\<close> and \<^verbatim>\<open>x if v else y\<close>.\<close>

fun truthy :: "json \<Rightarrow> bool" where
  "truthy JNull = False"
| "truthy (JBool b) = b"
| "truthy (JInt i) = (i \<noteq> 0)"
| "truthy (JFloat x) = (x \<noteq> 0)"
| "truthy JNaN = True"
| "truthy JInfinity = True"
| "truthy JNegInfinity = True"
| "truthy (JStr s) = (s \<noteq> [])"
| "truthy (JList xs) = (xs \<noteq> [])"
| "truthy (JDict kvs) = (kvs \<noteq> [])"

text \<open>
  \<^verbatim>\<open>result[key]\<close> with a string key: a dict raises \<^verbatim>\<open>KeyError\<close> when the key is
  missing, every other JSON value raises \<^verbatim>\<open>TypeError\<close>.
\<close>

fun getitem :: "json \<Rightarrow> string \<Rightarrow> exn + json" where
  "getitem (JDict kvs) k = (case map_of kvs k of None \<Rightarrow> Inl KeyError | Some v \<Rightarrow> Inr v)"
| "getitem _ k = Inl TypeError"

text \<open>
  \<^verbatim>\<open>result.get(key)\<close>: a dict returns \<^verbatim>\<open>None\<close> for a missing key, every other JSON
  value has no such method.
\<close>

fun get_method :: "json \<Rightarrow> string \<Rightarrow> exn + json" where
  "get_method (JDict kvs) k = Inr (case map_of kvs k of None \<Rightarrow> JNull | Some v \<Rightarrow> v)"
| "get_method _ k = Inl AttributeError"

text \<open>
  \<^verbatim>\<open>SouthIndianLanguage(value)\<close>: lookup of a member by value; \<^verbatim>\<open>ValueError\<close> when no
  member has that value. Only a string can equal a member's value.
\<close>

fun SouthIndianLanguage_of :: "json \<Rightarrow> exn + SouthIndianLanguage" where
  "SouthIndianLanguage_of (JStr s) =
     (if s = ''tamil'' then Inr TAMIL
      else if s = ''telugu'' then Inr TELUGU
      else if s = ''kannada'' then Inr KANNADA
      else if s = ''malayalam'' then Inr MALAYALAM
      else if s = ''english'' then Inr ENGLISH
      else if s = ''mixed'' then Inr MIXED
      else Inl ValueError)"
| "SouthIndianLanguage_of _ = Inl ValueError"

text \<open>\<^verbatim>\<open>@dataclass class LanguageDetectionResult\<close> (chat.py, lines 28-35).\<close>

record LanguageDetectionResult =
  primary_language :: SouthIndianLanguage
  secondary_language :: "SouthIndianLanguage option"
  confidence :: json
  is_code_mixed :: json
  mix_ratio :: json

text \<open>
  A chat message \<^verbatim>\<open>{"role": ..., "content": ...}\<close>. The content of a completion is
  \<^verbatim>\<open>Optional[str]\<close>, so \<open>None\<close> stands for Python's \<^verbatim>\<open>None\<close>.
\<close>

record message =
  role :: string
  content :: "string option"

section \<open>Language detection (chat.py, \<^verbatim>\<open>CodeMixedLanguageDetector.detect_language\<close>)\<close>

text \<open>The f-string of lines 57-78.\<close>

definition detection_prompt :: "string \<Rightarrow> string" where
  \<open>detection_prompt text =
     ''\<newline>'' @
     ''        Analyze the following text for language detection and code-mixing:\<newline>'' @
     ''        \<newline>'' @
     ''        Text: "'' @ text @ ''"\<newline>'' @
     ''        \<newline>'' @
     ''        Respond with ONLY a JSON object (no other text):\<newline>'' @
     ''        {\<newline>'' @
     ''            "primary_language": "tamil/telugu/kannada/malayalam/english",\<newline>'' @
     ''            "secondary_language": "tamil/telugu/kannada/malayalam/english or null",\<newline>'' @
     ''            "confidence": 0.95,\<newline>'' @
     ''            "is_code_mixed": true/false,\<newline>'' @
     ''            "mix_ratio": 0.4,\<newline>'' @
     ''            "reasoning": "brief explanation"\<newline>'' @
     ''        }\<newline>'' @
     ''        \<newline>'' @
     ''        Guidelines:\<newline>'' @
     ''        - primary_language: The dominant language in the text\<newline>'' @
     ''        - secondary_language: The secondary language if code-mixed, null if pure\<newline>'' @
     ''        - confidence: How confident you are (0.0 to 1.0)\<newline>'' @
     ''        - is_code_mixed: true if mixing multiple languages\<newline>'' @
     ''        - mix_ratio: 0.0 = pure primary, 1.0 = pure secondary, 0.5 = equal mix\<newline>'' @
     ''        ''\<close>

text \<open>The message list of lines 83-86.\<close>

definition detection_messages :: "string \<Rightarrow> message list" where
  "detection_messages text =
     [\<lparr>role = ''system'',
       content = Some ''You are a South Indian language expert. Respond only with valid JSON.''\<rparr>,
      \<lparr>role = ''user'', content = Some (detection_prompt text)\<rparr>]"

text \<open>
  The inference service and \<^verbatim>\<open>json.loads\<close> are outside the repository. Lines 81-91
  (the API call, the access to \<^verbatim>\<open>response.choices[0].message.content\<close> and
  \<^verbatim>\<open>json.loads\<close>) either raise or bind \<^verbatim>\<open>result\<close> to a parsed JSON value; a
  detection service is therefore a function from the request to \<open>exn + json\<close>, where
  \<open>Inl\<close> covers transport failures and output that is not JSON.
\<close>

type_synonym detection_service = "message list \<Rightarrow> exn + json"

text \<open>
  The constructor call of lines 93-99. Keyword arguments are evaluated in the order
  written; the conditional expression of line 95 evaluates its condition
  \<^verbatim>\<open>result.get("secondary_language")\<close> first.
\<close>

definition build_result :: "json \<Rightarrow> exn + LanguageDetectionResult" where
  "build_result result =
     and_then (getitem result ''primary_language'') (\<lambda>p.
     and_then (SouthIndianLanguage_of p) (\<lambda>primary.
     and_then (get_method result ''secondary_language'') (\<lambda>c.
     and_then (if truthy c
               then and_then (getitem result ''secondary_language'') (\<lambda>s.
                    and_then (SouthIndianLanguage_of s) (\<lambda>l. Inr (Some l)))
               else Inr None) (\<lambda>secondary.
     and_then (getitem result ''confidence'') (\<lambda>conf.
     and_then (getitem result ''is_code_mixed'') (\<lambda>mixed.
     and_then (getitem result ''mix_ratio'') (\<lambda>ratio.
       Inr \<lparr>primary_language = primary,
            secondary_language = secondary,
            confidence = conf,
            is_code_mixed = mixed,
            mix_ratio = ratio\<rparr>)))))))"

text \<open>The record of the \<^verbatim>\<open>except Exception\<close> handler, lines 104-110.\<close>

definition fallback_result :: LanguageDetectionResult where
  "fallback_result =
     \<lparr>primary_language = ENGLISH,
      secondary_language = None,
      confidence = JFloat 0.5,
      is_code_mixed = JBool False,
      mix_ratio = JFloat 0.0\<rparr>"

text \<open>
  \<^verbatim>\<open>detect_language\<close>: the \<^verbatim>\<open>try\<close> block, and the handler that catches every
  \<^verbatim>\<open>Exception\<close>. The warning printed by the handler is not part of the result.
\<close>

definition detect_language :: "detection_service \<Rightarrow> string \<Rightarrow> LanguageDetectionResult" where
  "detect_language client text =
     (case and_then (client (detection_messages text)) build_result of
        Inr r \<Rightarrow> r
      | Inl e \<Rightarrow> fallback_result)"

section \<open>The chat bot (chat.py, \<^verbatim>\<open>CodeMixedChatBot\<close>)\<close>

text \<open>\<^verbatim>\<open>d.get(key, default)\<close> on a dict given as an association list.\<close>

definition dict_get :: "('k \<times> 'v) list \<Rightarrow> 'k \<Rightarrow> 'v \<Rightarrow> 'v" where
  "dict_get d k dflt = (case map_of d k of None \<Rightarrow> dflt | Some v \<Rightarrow> v)"

text \<open>\<^verbatim>\<open>self.cultural_context\<close>, the dict of dicts of lines 121-142.\<close>

definition cultural_context :: "(SouthIndianLanguage \<times> (string \<times> string) list) list" where
  "cultural_context =
     [(TAMIL,
        [(''greeting'', ''Vanakkam''),
         (''culture'', ''Tamil Nadu culture, Chennai references, Tamil cinema''),
         (''food'', ''dosa, idli, sambar, rasam, Tamil cuisine'')]),
      (TELUGU,
        [(''greeting'', ''Namaskaram''),
         (''culture'', ''Andhra/Telangana culture, Hyderabad references, Tollywood''),
         (''food'', ''biryani, pesarattu, gongura, Telugu cuisine'')]),
      (KANNADA,
        [(''greeting'', ''Namaskara''),
         (''culture'', ''Karnataka culture, Bangalore references, Sandalwood''),
         (''food'', ''masala dosa, mysore pak, Kannada cuisine'')]),
      (MALAYALAM,
        [(''greeting'', ''Namaskaram''),
         (''culture'', ''Kerala culture, backwaters, Malayalam cinema''),
         (''food'', ''appam, fish curry, coconut, Kerala cuisine'')])]"

text \<open>
  \<^verbatim>\<open>str.title()\<close> on ASCII text: a cased character is upper-cased when the character
  before it is not cased, and lower-cased otherwise. It is applied to member values only,
  which are ASCII.
\<close>

definition lower_letters :: string where
  "lower_letters = ''abcdefghijklmnopqrstuvwxyz''"

definition upper_letters :: string where
  "upper_letters = ''ABCDEFGHIJKLMNOPQRSTUVWXYZ''"

definition to_upper :: "char \<Rightarrow> char" where
  "to_upper c = dict_get (zip lower_letters upper_letters) c c"

definition to_lower :: "char \<Rightarrow> char" where
  "to_lower c = dict_get (zip upper_letters lower_letters) c c"

definition is_cased :: "char \<Rightarrow> bool" where
  "is_cased c = (c \<in> set lower_letters \<or> c \<in> set upper_letters)"

fun title_from :: "bool \<Rightarrow> string \<Rightarrow> string" where
  "title_from prev [] = []"
| "title_from prev (c # cs) =
     (if prev then to_lower c else to_upper c) # title_from (is_cased c) cs"

definition title :: "string \<Rightarrow> string" where
  "title s = title_from False s"

text \<open>
  The three prompt texts of \<^verbatim>\<open>create_system_prompt\<close>: the f-string of lines 151-175
  (with the values it interpolates as arguments), the plain string of lines 178-182 and
  the f-string of lines 184-188.
\<close>

definition code_mixed_prompt :: "string \<Rightarrow> string \<Rightarrow> string \<Rightarrow> string \<Rightarrow> string" where
  \<open>code_mixed_prompt v greeting culture food =
     ''\<newline>'' @
     ''            You are a friendly, culturally aware assistant who naturally speaks in code-mixed '' @ v @ ''-English, \<newline>'' @
     ''            just like urban South Indians do in daily conversation.\<newline>'' @
     ''            \<newline>'' @
     ''            Cultural Context:\<newline>'' @
     ''            - Primary language: '' @ title v @ ''\<newline>'' @
     ''            - Greeting style: '' @ greeting @ ''\<newline>'' @
     ''            - Cultural knowledge: '' @ culture @ ''\<newline>'' @
     ''            - Food references: '' @ food @ ''\<newline>'' @
     ''            \<newline>'' @
     ''            Response Style:\<newline>'' @
     ''            - Mix '' @ v @ '' and English naturally (like the user did)\<newline>'' @
     ''            - Use appropriate '' @ v @ '' greetings and expressions\<newline>'' @
     ''            - Include cultural references when relevant\<newline>'' @
     ''            - Keep responses conversational and warm\<newline>'' @
     ''            - Match the user's code-mixing style and ratio\<newline>'' @
     ''            - Use romanized '' @ v @ '' (English letters) for '' @ v @ '' words\<newline>'' @
     ''            \<newline>'' @
     ''            Examples of natural '' @ v @ ''-English mixing:\<newline>'' @
     ''            - "Vanakkam! How are you? Naan nalla irukken da!"\<newline>'' @
     ''            - "Office work romba busy-aa irukku, but weekend plans ready!"\<newline>'' @
     ''            - "Shall we go for lunch? Biriyani sapdalam!"\<newline>'' @
     ''            \<newline>'' @
     ''            Remember: Be natural, friendly, and culturally appropriate!\<newline>'' @
     ''            ''\<close>

definition english_prompt :: string where
  \<open>english_prompt =
     ''\<newline>'' @
     ''                You are a friendly assistant. The user is speaking in English.\<newline>'' @
     ''                Respond naturally in English, but feel free to use some South Indian \<newline>'' @
     ''                expressions if contextually appropriate.\<newline>'' @
     ''                ''\<close>

definition regional_prompt :: "string \<Rightarrow> string" where
  \<open>regional_prompt v =
     ''\<newline>'' @
     ''                You are a friendly assistant. The user is speaking in '' @ v @ ''.\<newline>'' @
     ''                Respond in a mix of '' @ v @ '' and English, as this is natural \<newline>'' @
     ''                for South Indian conversations. Use romanized '' @ v @ ''.\<newline>'' @
     ''                ''\<close>

text \<open>
  \<^verbatim>\<open>create_system_prompt\<close> (lines 144-190). The condition of line 150 is the
  truthiness of whatever the field \<^verbatim>\<open>is_code_mixed\<close> holds.
\<close>

definition create_system_prompt :: "LanguageDetectionResult \<Rightarrow> string" where
  "create_system_prompt detected_lang =
     (let primary = primary_language detected_lang;
          context = dict_get cultural_context primary []
      in if truthy (is_code_mixed detected_lang)
         then code_mixed_prompt (language_value primary)
                (dict_get context ''greeting'' ''Hello'')
                (dict_get context ''culture'' ''General South Indian'')
                (dict_get context ''food'' ''South Indian cuisine'')
         else if primary = ENGLISH
              then english_prompt
              else regional_prompt (language_value primary))"

text \<open>\<^verbatim>\<open>@dataclass class ChatResponse\<close> (lines 37-43).\<close>

record ChatResponse =
  response_text :: "string option"
  detected_language :: LanguageDetectionResult
  response_language :: SouthIndianLanguage
  processing_time :: real

text \<open>
  A generation service is a function from the request to \<open>exn + string option\<close>:
  lines 214-221 either raise or bind \<^verbatim>\<open>response_text\<close> to the content of the first
  choice. What one call of \<^verbatim>\<open>generate_response\<close> meets outside the repository is the
  two services and the two readings of \<^verbatim>\<open>time.time()\<close>.
\<close>

type_synonym chat_service = "message list \<Rightarrow> exn + string option"

record services =
  detector_client :: detection_service
  chat_client :: chat_service
  time_start :: real
  time_end :: real

text \<open>\<^verbatim>\<open>xs[-10:]\<close> (line 206): the last ten elements, or all of them.\<close>

definition last_ten :: "'a list \<Rightarrow> 'a list" where
  "last_ten xs = drop (length xs - 10) xs"

text \<open>
  Lines 206-212: the request sent to the generation service, from the system prompt
  and the history that already holds the new user turn.
\<close>

definition generation_messages :: "string \<Rightarrow> message list \<Rightarrow> message list" where
  "generation_messages system_prompt history =
     (let recent_history = last_ten history
      in [\<lparr>role = ''system'', content = Some system_prompt\<rparr>] @ recent_history)"

text \<open>
  \<^verbatim>\<open>generate_response\<close> (lines 192-244), with \<^verbatim>\<open>self.conversation_history\<close>
  passed in and returned.
\<close>

definition generate_response ::
  "services \<Rightarrow> string \<Rightarrow> message list \<Rightarrow> ChatResponse \<times> message list" where
  \<open>generate_response env user_input conversation_history =
     (let detected_lang = detect_language (detector_client env) user_input;
          system_prompt = create_system_prompt detected_lang;
          history = conversation_history @ [\<lparr>role = ''user'', content = Some user_input\<rparr>]
      in case chat_client env (generation_messages system_prompt history) of
           Inr text \<Rightarrow>
             (\<lparr>response_text = text,
               detected_language = detected_lang,
               response_language = primary_language detected_lang,
               processing_time = time_end env - time_start env\<rparr>,
              history @ [\<lparr>role = ''assistant'', content = text\<rparr>])
         | Inl e \<Rightarrow>
             (\<lparr>response_text = Some ''Sorry, I'm having trouble right now. Please try again!'',
               detected_language = detected_lang,
               response_language = ENGLISH,
               processing_time = time_end env - time_start env\<rparr>,
              history))\<close>

text \<open>
  A session: successive calls of \<^verbatim>\<open>generate_response\<close> on the same bot, each with
  its own input and its own behaviour of the services (the loop of lines 318-345).
\<close>

fun run_session :: "(services \<times> string) list \<Rightarrow> message list \<Rightarrow> message list" where
  "run_session [] history = history"
| "run_session ((env, user_input) # calls) history =
     run_session calls (snd (generate_response env user_input history))"

text \<open>Whether the generation step of a call succeeds, for the state the call starts in.\<close>

definition generation_succeeds :: "services \<Rightarrow> string \<Rightarrow> message list \<Rightarrow> bool" where
  \<open>generation_succeeds env user_input conversation_history =
     (case chat_client env
             (generation_messages
                (create_system_prompt (detect_language (detector_client env) user_input))
                (conversation_history @ [\<lparr>role = ''user'', content = Some user_input\<rparr>])) of
        Inr text \<Rightarrow> True
      | Inl e \<Rightarrow> False)\<close>

fun all_succeed :: "(services \<times> string) list \<Rightarrow> message list \<Rightarrow> bool" where
  "all_succeed [] history = True"
| "all_succeed ((env, user_input) # calls) history =
     (generation_succeeds env user_input history \<and>
      all_succeed calls (snd (generate_response env user_input history)))"

section \<open>The enhancement pass (tts.py, \<^verbatim>\<open>CodeMixedTTS.enhance_text_for_tts\<close>)\<close>

text \<open>
  tts.py declares its own \<^verbatim>\<open>SouthIndianLanguage\<close> (lines 29-35), without a member for
  English, and the dataclass \<^verbatim>\<open>CodeMixedPhrase\<close> (lines 46-53).
\<close>

datatype SouthIndianLanguage_tts =
  TAMIL_tts | TELUGU_tts | KANNADA_tts | MALAYALAM_tts | MIXED_tts

fun language_value_tts :: "SouthIndianLanguage_tts \<Rightarrow> string" where
  "language_value_tts TAMIL_tts = ''tamil''"
| "language_value_tts TELUGU_tts = ''telugu''"
| "language_value_tts KANNADA_tts = ''kannada''"
| "language_value_tts MALAYALAM_tts = ''malayalam''"
| "language_value_tts MIXED_tts = ''mixed''"

record CodeMixedPhrase =
  phrase_text :: string
  phrase_primary_language :: SouthIndianLanguage_tts
  phrase_secondary_language :: "SouthIndianLanguage_tts option"
  phrase_mix_ratio :: real
  phrase_description :: string

text \<open>
  \<^verbatim>\<open>str.strip()\<close>: removes leading and trailing whitespace. A Python string is a
  sequence of code points, and a \<open>char\<close> stands for a code point below 256; the
  whitespace characters of Python in that range are the code points 9-13, 28-31, 32,
  133 (U+0085) and 160 (U+00A0).
\<close>

definition is_space :: "char \<Rightarrow> bool" where
  "is_space c =
     (c \<in> set [CHR 0x09, CHR 0x0A, CHR 0x0B, CHR 0x0C, CHR 0x0D,
               CHR 0x1C, CHR 0x1D, CHR 0x1E, CHR 0x1F, CHR 0x20,
               CHR 0x85, CHR 0xA0])"

definition strip :: "string \<Rightarrow> string" where
  "strip s = rev (dropWhile is_space (rev (dropWhile is_space s)))"

text \<open>
  \<^verbatim>\<open>str.replace(old, new)\<close>: every occurrence of \<open>old\<close>, found from left to right
  without overlap, becomes \<open>new\<close>; an empty \<open>old\<close> matches before every character and
  at the end.
\<close>

function replace :: "string \<Rightarrow> string \<Rightarrow> string \<Rightarrow> string" where
  "replace old new [] = (if old = [] then new else [])"
| "replace old new (c # cs) =
     (if old = [] then new @ c # replace old new cs
      else if prefix old (c # cs) then new @ replace old new (drop (length old) (c # cs))
      else c # replace old new cs)"
  by pat_completeness auto
termination
  by (relation "measure (\<lambda>(old, new, s). length s)") auto

text \<open>The f-string of lines 180-193 and the message list of lines 198-201.\<close>

definition enhancement_prompt :: "CodeMixedPhrase \<Rightarrow> string" where
  \<open>enhancement_prompt phrase =
     ''\<newline>'' @
     ''        Convert this code-mixed '' @ language_value_tts (phrase_primary_language phrase) @ '' text to be more TTS-friendly while preserving the natural code-mixing:\<newline>'' @
     ''        \<newline>'' @
     ''        Original: "'' @ phrase_text phrase @ ''"\<newline>'' @
     ''        \<newline>'' @
     ''        Instructions:\<newline>'' @
     ''        1. Keep the natural code-mixing as is\<newline>'' @
     ''        2. Add phonetic hints for non-English words in parentheses if needed\<newline>'' @
     ''        3. Adjust spelling of regional words to help English TTS pronounce better\<newline>'' @
     ''        4. Keep the conversational tone intact\<newline>'' @
     ''        5. Don't over-modify - maintain authenticity\<newline>'' @
     ''        \<newline>'' @
     ''        Enhanced text for TTS:\<newline>'' @
     ''        ''\<close>

definition enhancement_messages :: "CodeMixedPhrase \<Rightarrow> message list" where
  "enhancement_messages phrase =
     [\<lparr>role = ''system'',
       content = Some ''You are a linguistic expert in South Indian languages and code-mixing. Help optimize text for TTS while preserving natural speech patterns.''\<rparr>,
      \<lparr>role = ''user'', content = Some (enhancement_prompt phrase)\<rparr>]"

text \<open>
  The \<^verbatim>\<open>try\<close> block of lines 195-210: the call, then \<^verbatim>\<open>.strip()\<close> on the content
  (an \<^verbatim>\<open>AttributeError\<close> when the content is \<^verbatim>\<open>None\<close>), the two replacements and
  the second \<^verbatim>\<open>.strip()\<close>.
\<close>

definition enhance_body :: "chat_service \<Rightarrow> CodeMixedPhrase \<Rightarrow> exn + string" where
  \<open>enhance_body client phrase =
     and_then (client (enhancement_messages phrase)) (\<lambda>content.
       case content of
         None \<Rightarrow> Inl AttributeError
       | Some c \<Rightarrow>
           (let enhanced_text = strip c;
                enhanced_text =
                  strip (replace ''Enhanced text for TTS:'' [] (replace ''"'' [] enhanced_text))
            in Inr enhanced_text))\<close>

text \<open>
  \<^verbatim>\<open>enhance_text_for_tts\<close> (lines 176-214): the handler of line 212 catches every
  \<^verbatim>\<open>Exception\<close> and returns \<^verbatim>\<open>phrase.text\<close>.
\<close>

definition enhance_text_for_tts :: "chat_service \<Rightarrow> CodeMixedPhrase \<Rightarrow> string" where
  "enhance_text_for_tts client phrase =
     (case enhance_body client phrase of
        Inr enhanced_text \<Rightarrow> enhanced_text
      | Inl e \<Rightarrow> phrase_text phrase)"

section \<open>The properties the specification states\<close>

text \<open>
  The specification's invariants of a detection record, read on the values the record
  holds: a number in the interval from 0 to 1, a number equal to zero, and the
  normalization invariant (a record that is not code-mixed has no secondary language and
  a mix ratio of zero).
\<close>

fun in_unit_interval :: "json \<Rightarrow> bool" where
  "in_unit_interval (JFloat x) = (0 \<le> x \<and> x \<le> 1)"
| "in_unit_interval (JInt i) = (0 \<le> i \<and> i \<le> 1)"
| "in_unit_interval _ = False"



definition values_in_range :: "LanguageDetectionResult \<Rightarrow> bool" where
  "values_in_range d = (in_unit_interval (confidence d) \<and> in_unit_interval (mix_ratio d))"


definition response_in_range :: "json \<Rightarrow> bool" where
  "response_in_range result =
     ((case getitem result ''confidence'' of
         Inr v \<Rightarrow> in_unit_interval v
       | Inl e \<Rightarrow> False) \<and>
      (case getitem result ''mix_ratio'' of
         Inr v \<Rightarrow> in_unit_interval v
       | Inl e \<Rightarrow> False))"

text \<open>
  The responses \<^verbatim>\<open>detect_language\<close> accepts: an object whose
  \<^verbatim>\<open>primary_language\<close> names a member, whose \<^verbatim>\<open>secondary_language\<close> is missing,
  falsy or names a member, and which has the keys \<^verbatim>\<open>confidence\<close>,
  \<^verbatim>\<open>is_code_mixed\<close> and \<^verbatim>\<open>mix_ratio\<close>.
\<close>

definition names_member :: "json \<Rightarrow> bool" where
  "names_member v = (case SouthIndianLanguage_of v of Inr l \<Rightarrow> True | Inl e \<Rightarrow> False)"

fun accepted :: "json \<Rightarrow> bool" where
  "accepted (JDict kvs) =
     ((case map_of kvs ''primary_language'' of Some p \<Rightarrow> names_member p | None \<Rightarrow> False) \<and>
      (case map_of kvs ''secondary_language'' of
         Some s \<Rightarrow> (if truthy s then names_member s else True)
       | None \<Rightarrow> True) \<and>
      map_of kvs ''confidence'' \<noteq> None \<and>
      map_of kvs ''is_code_mixed'' \<noteq> None \<and>
      map_of kvs ''mix_ratio'' \<noteq> None)"
| "accepted _ = False"

text \<open>
  A call of the detection service fails when the service raises (transport failure,
  output that is not JSON) or answers with a response that is not accepted.
\<close>

definition detection_fails :: "detection_service \<Rightarrow> string \<Rightarrow> bool" where
  "detection_fails client text =
     (case client (detection_messages text) of
        Inl e \<Rightarrow> True
      | Inr result \<Rightarrow> \<not> accepted result)"

text \<open>
  The specification's state machine of the policy builder: three branches, selected by
  the pair (code-mixed, primary language is English), and the directive of each branch.
\<close>

datatype branch = CodeMixedBlend | PlainEnglish | RegionalBlend

fun spec_branch :: "bool \<Rightarrow> bool \<Rightarrow> branch" where
  "spec_branch True english = CodeMixedBlend"
| "spec_branch False True = PlainEnglish"
| "spec_branch False False = RegionalBlend"

fun branch_directive :: "branch \<Rightarrow> SouthIndianLanguage \<Rightarrow> string" where
  "branch_directive CodeMixedBlend primary =
     code_mixed_prompt (language_value primary)
       (dict_get (dict_get cultural_context primary []) ''greeting'' ''Hello'')
       (dict_get (dict_get cultural_context primary []) ''culture'' ''General South Indian'')
       (dict_get (dict_get cultural_context primary []) ''food'' ''South Indian cuisine'')"
| "branch_directive PlainEnglish primary = english_prompt"
| "branch_directive RegionalBlend primary = regional_prompt (language_value primary)"

text \<open>
  The turns a session without failures appends: for each call the user turn, then the
  assistant turn with the reply of that call.
\<close>

fun turns_of :: "(services \<times> string) list \<Rightarrow> string option list \<Rightarrow> message list" where
  "turns_of ((env, u) # calls) (r # rs) =
     \<lparr>role = ''user'', content = Some u\<rparr> #
     \<lparr>role = ''assistant'', content = r\<rparr> # turns_of calls rs"
| "turns_of _ _ = []"

section \<open>Concrete services and inputs\<close>



definition telugu_english_service :: detection_service where
  "telugu_english_service msgs =
     Inr (JDict [(''primary_language'', JStr ''telugu''),
                 (''secondary_language'', JStr ''english''),
                 (''confidence'', JFloat 0.75),
                 (''is_code_mixed'', JBool True),
                 (''mix_ratio'', JFloat 0.25)])"

definition overconfident_service :: detection_service where
  "overconfident_service msgs =
     Inr (JDict [(''primary_language'', JStr ''telugu''),
                 (''secondary_language'', JStr ''english''),
                 (''confidence'', JFloat 1.5),
                 (''is_code_mixed'', JBool True),
                 (''mix_ratio'', JFloat 0.25)])"

definition untyped_service :: detection_service where
  "untyped_service msgs =
     Inr (JDict [(''primary_language'', JStr ''kannada''),
                 (''secondary_language'', JNull),
                 (''confidence'', JStr ''high''),
                 (''is_code_mixed'', JStr ''no''),
                 (''mix_ratio'', JNull)])"

definition unreachable_service :: detection_service where
  "unreachable_service msgs = Inl APIError"

definition prose_service :: detection_service where
  "prose_service msgs = Inl JSONDecodeError"

definition unknown_language_service :: detection_service where
  "unknown_language_service msgs =
     Inr (JDict [(''primary_language'', JStr ''hindi''),
                 (''secondary_language'', JNull),
                 (''confidence'', JFloat 0.9),
                 (''is_code_mixed'', JBool False),
                 (''mix_ratio'', JFloat 0.0)])"

definition no_confidence_service :: detection_service where
  "no_confidence_service msgs =
     Inr (JDict [(''primary_language'', JStr ''malayalam''),
                 (''secondary_language'', JStr ''english''),
                 (''is_code_mixed'', JBool True),
                 (''mix_ratio'', JFloat 0.5)])"

definition no_secondary_service :: detection_service where
  "no_secondary_service msgs =
     Inr (JDict [(''primary_language'', JStr ''malayalam''),
                 (''confidence'', JFloat 0.8),
                 (''is_code_mixed'', JBool True),
                 (''mix_ratio'', JFloat 0.5)])"

definition tamil_mixed_service :: detection_service where
  "tamil_mixed_service msgs =
     Inr (JDict [(''primary_language'', JStr ''tamil''),
                 (''secondary_language'', JStr ''english''),
                 (''confidence'', JFloat 0.9),
                 (''is_code_mixed'', JBool True),
                 (''mix_ratio'', JFloat 0.5)])"

text \<open>Generation services, and the surroundings of a call built from them.\<close>

definition answering_chat :: chat_service where
  "answering_chat msgs = Inr (Some ''Vanakkam! Naan nalla irukken.'')"

definition failing_chat :: chat_service where
  "failing_chat msgs = Inl APIError"

definition working_env :: services where
  "working_env =
     \<lparr>detector_client = tamil_mixed_service, chat_client = answering_chat,
      time_start = 100, time_end = 102\<rparr>"

definition broken_env :: services where
  "broken_env =
     \<lparr>detector_client = tamil_mixed_service, chat_client = failing_chat,
      time_start = 100, time_end = 101\<rparr>"

definition two_calls :: "(services \<times> string) list" where
  "two_calls = [(working_env, ''Vanakkam''), (working_env, ''Saptiya?'')]"

text \<open>Detection records and histories.\<close>

definition pure_tamil_record :: LanguageDetectionResult where
  "pure_tamil_record =
     \<lparr>primary_language = TAMIL, secondary_language = None, confidence = JFloat 0.9,
      is_code_mixed = JBool False, mix_ratio = JFloat 0.0\<rparr>"

definition mixed_tag_record :: LanguageDetectionResult where
  "mixed_tag_record =
     \<lparr>primary_language = MIXED, secondary_language = None, confidence = JFloat 0.6,
      is_code_mixed = JBool True, mix_ratio = JFloat 0.5\<rparr>"

definition numbered_turn :: "nat \<Rightarrow> message" where
  "numbered_turn n =
     \<lparr>role = (if even n then ''user'' else ''assistant''),
      content = Some (replicate (Suc n) (CHR ''a''))\<rparr>"

definition short_history :: "message list" where
  "short_history = map numbered_turn [0, 1, 2]"

definition long_history :: "message list" where
  "long_history = map numbered_turn [0, 1, 2, 3, 4, 5, 6, 7, 8, 9, 10, 11, 12]"

text \<open>A phrase for the enhancement pass.\<close>

definition sample_phrase :: CodeMixedPhrase where
  "sample_phrase =
     \<lparr>phrase_text = ''Office-la meeting irukku'',
      phrase_primary_language = TAMIL_tts,
      phrase_secondary_language = None,
      phrase_mix_ratio = 0.3,
      phrase_description = ''Custom user input''\<rparr>"

text \<open>A generation service that answers requests of at most eleven messages only.\<close>

definition bounded_chat :: chat_service where
  "bounded_chat msgs =
     (if length msgs \<le> 11 then Inr (Some ''Vanakkam! Naan nalla irukken.'')
      else Inl APIError)"

section \<open>Language detection: what \<^verbatim>\<open>detect_language\<close> returns\<close>

lemma detect_language_cases:
  "detect_language client text =
     (case client (detection_messages text) of
        Inl e \<Rightarrow> fallback_result
      | Inr result \<Rightarrow>
          (case build_result result of Inl e \<Rightarrow> fallback_result | Inr r \<Rightarrow> r))"
  by (simp add: detect_language_def and_then_def split: sum.splits)

lemma build_result_Inr_iff:
  "(\<exists>r. build_result result = Inr r) \<longleftrightarrow> accepted result"
  by (cases result)
     (auto simp: build_result_def and_then_def names_member_def
           split: option.splits sum.splits if_splits)

lemma not_accepted_build_result: "\<not> accepted result \<Longrightarrow> \<exists>e. build_result result = Inl e"
  using build_result_Inr_iff [of result] by (cases "build_result result") auto

lemma accepted_build_result: "accepted result \<Longrightarrow> \<exists>r. build_result result = Inr r"
  using build_result_Inr_iff [of result] by simp

text \<open>An accepted response hands its fields to the record unchanged.\<close>

lemma build_result_fields:
  assumes "build_result result = Inr r"
  shows "getitem result ''confidence'' = Inr (confidence r)"
    and "getitem result ''is_code_mixed'' = Inr (is_code_mixed r)"
    and "getitem result ''mix_ratio'' = Inr (mix_ratio r)"
    and "and_then (getitem result ''primary_language'') SouthIndianLanguage_of =
           Inr (primary_language r)"
    and "(secondary_language r = None) \<longleftrightarrow>
           (case get_method result ''secondary_language'' of
              Inr c \<Rightarrow> \<not> truthy c
            | Inl e \<Rightarrow> True)"
  using assms
  by (cases result;
      auto simp: build_result_def and_then_def split: option.splits sum.splits if_splits)+


lemma build_result_in_range:
  assumes "build_result result = Inr r"
  shows "values_in_range r \<longleftrightarrow> response_in_range result"
  using build_result_fields [OF assms]
  by (simp add: values_in_range_def response_in_range_def)


lemma fallback_in_range: "values_in_range fallback_result"
  by (simp add: values_in_range_def fallback_result_def)

lemma detection_fails_fallback:
  assumes "detection_fails client text"
  shows "detect_language client text = fallback_result"
proof (cases "client (detection_messages text)")
  case (Inl e)
  then show ?thesis by (simp add: detect_language_cases)
next
  case (Inr result)
  with assms have "\<not> accepted result" by (simp add: detection_fails_def)
  then obtain e where "build_result result = Inl e"
    using not_accepted_build_result by blast
  with Inr show ?thesis by (simp add: detect_language_cases)
qed




text \<open>
  C2, as amended. \<^verbatim>\<open>detect_language\<close> never raises (it is a total function into the
  record type, every exception of the \<^verbatim>\<open>try\<close> block being caught). When the service
  raises (transport failure, output that is not JSON) or the response is not accepted
  (not an object; \<^verbatim>\<open>primary_language\<close>, \<^verbatim>\<open>confidence\<close>, \<^verbatim>\<open>is_code_mixed\<close> or
  \<^verbatim>\<open>mix_ratio\<close> missing; a primary language, or a truthy secondary language, that names
  no member), it returns exactly the default record, and any two failing calls return
  the same record. The values of \<^verbatim>\<open>confidence\<close>, \<^verbatim>\<open>is_code_mixed\<close> and
  \<^verbatim>\<open>mix_ratio\<close> are not validated.
\<close>

theorem detect_language_fallback:
  assumes "detection_fails client text"
  shows "detect_language client text =
           \<lparr>primary_language = ENGLISH, secondary_language = None, confidence = JFloat 0.5,
            is_code_mixed = JBool False, mix_ratio = JFloat 0.0\<rparr> \<and>
         (\<forall>client' text'. detection_fails client' text' \<longrightarrow>
            detect_language client' text' = detect_language client text)"
  using detection_fails_fallback [OF assms] detection_fails_fallback
  by (simp add: fallback_result_def)

theorem detect_language_fallback_witness:
  "detection_fails unreachable_service ''hello'' \<and>
   detection_fails prose_service ''vanakkam'' \<and>
   detection_fails unknown_language_service ''namaste'' \<and>
   detect_language unknown_language_service ''namaste'' =
     \<lparr>primary_language = ENGLISH, secondary_language = None, confidence = JFloat 0.5,
      is_code_mixed = JBool False, mix_ratio = JFloat 0.0\<rparr> \<and>
   detect_language prose_service ''vanakkam'' =
     detect_language unknown_language_service ''namaste'' \<and>
   detect_language unreachable_service ''hello'' =
     detect_language unknown_language_service ''namaste''"
proof -
  have a: "detection_fails unreachable_service ''hello''"
    by (simp add: detection_fails_def unreachable_service_def)
  have b: "detection_fails prose_service ''vanakkam''"
    by (simp add: detection_fails_def prose_service_def)
  have c: "detection_fails unknown_language_service ''namaste''"
    by (simp add: detection_fails_def unknown_language_service_def names_member_def)
  show ?thesis
    using a b c detect_language_fallback [OF c] by simp
qed

text \<open>
  The claim as stated fails: a response whose \<^verbatim>\<open>confidence\<close> is the string
  \<^verbatim>\<open>"high"\<close>, whose \<^verbatim>\<open>is_code_mixed\<close> is the string \<^verbatim>\<open>"no"\<close> and whose
  \<^verbatim>\<open>mix_ratio\<close> is \<^verbatim>\<open>null\<close> has three fields that fail validation, and the record
  returned carries them instead of being the default record.
\<close>

theorem detect_language_fallback_counterexample:
  "untyped_service (detection_messages ''Naanu mane-ge hogthini'') =
     Inr (JDict [(''primary_language'', JStr ''kannada''),
                 (''secondary_language'', JNull),
                 (''confidence'', JStr ''high''),
                 (''is_code_mixed'', JStr ''no''),
                 (''mix_ratio'', JNull)]) \<and>
   \<not> in_unit_interval (JStr ''high'') \<and>
   \<not> in_unit_interval JNull \<and>
   detect_language untyped_service ''Naanu mane-ge hogthini'' =
     \<lparr>primary_language = KANNADA, secondary_language = None, confidence = JStr ''high'',
      is_code_mixed = JStr ''no'', mix_ratio = JNull\<rparr> \<and>
   detect_language untyped_service ''Naanu mane-ge hogthini'' \<noteq> fallback_result"
  by (simp add: untyped_service_def detect_language_cases build_result_def and_then_def
        fallback_result_def)

text \<open>
  C3, as amended. \<^verbatim>\<open>detect_language\<close> does not check ranges: for every text and every
  behaviour of the service, \<^verbatim>\<open>confidence\<close> and \<^verbatim>\<open>mix_ratio\<close> of the record returned
  are numbers between 0 and 1 exactly when the call fell back to the default record
  (whose values are 0.5 and 0.0) or the accepted response carries numbers between 0 and 1
  in both fields; the values of an accepted response are passed through.
\<close>

theorem detect_language_range:
  "values_in_range (detect_language client text) \<longleftrightarrow>
     (case client (detection_messages text) of
        Inl e \<Rightarrow> True
      | Inr result \<Rightarrow> accepted result \<longrightarrow> response_in_range result)"
proof (cases "client (detection_messages text)")
  case (Inl e)
  then show ?thesis
    by (simp add: detect_language_cases fallback_in_range)
next
  case (Inr result)
  show ?thesis
  proof (cases "accepted result")
    case True
    then obtain r where r: "build_result result = Inr r"
      using accepted_build_result by blast
    with Inr True show ?thesis
      by (simp add: detect_language_cases build_result_in_range)
  next
    case False
    then obtain e where "build_result result = Inl e"
      using not_accepted_build_result by blast
    with Inr False show ?thesis
      by (simp add: detect_language_cases fallback_in_range)
  qed
qed

theorem detect_language_range_witness:
  "accepted (JDict [(''primary_language'', JStr ''telugu''),
                    (''secondary_language'', JStr ''english''),
                    (''confidence'', JFloat 0.75),
                    (''is_code_mixed'', JBool True),
                    (''mix_ratio'', JFloat 0.25)]) \<and>
   values_in_range (detect_language telugu_english_service ''Nenu office lo unnanu'')"
  using detect_language_range [of telugu_english_service "''Nenu office lo unnanu''"]
  by (simp add: telugu_english_service_def names_member_def response_in_range_def)

text \<open>
  The claim as stated fails: a response with a confidence of 1.5 is accepted, and the
  record returned has that confidence.
\<close>

theorem detect_language_range_counterexample:
  "confidence (detect_language overconfident_service ''Nenu office lo unnanu'') = JFloat 1.5 \<and>
   \<not> values_in_range (detect_language overconfident_service ''Nenu office lo unnanu'')"
  by (simp add: overconfident_service_def values_in_range_def
        detect_language_cases build_result_def and_then_def)

text \<open>
  C10. For a response that is a JSON object: when one of the keys
  \<^verbatim>\<open>primary_language\<close>, \<^verbatim>\<open>confidence\<close>, \<^verbatim>\<open>is_code_mixed\<close>, \<^verbatim>\<open>mix_ratio\<close> is missing,
  the default record is returned; when these four are present and the primary language
  names a member, a \<^verbatim>\<open>secondary_language\<close> that is missing or \<^verbatim>\<open>null\<close> gives a record
  without secondary language whose other fields are those of the response.
\<close>

theorem detect_language_keys:
  assumes "client (detection_messages text) = Inr (JDict kvs)"
  shows "(k \<in> {''primary_language'', ''confidence'', ''is_code_mixed'', ''mix_ratio''} \<and>
          map_of kvs k = None \<longrightarrow>
            detect_language client text = fallback_result) \<and>
         (map_of kvs ''primary_language'' = Some p \<and> SouthIndianLanguage_of p = Inr l \<and>
          map_of kvs ''confidence'' = Some c \<and>
          map_of kvs ''is_code_mixed'' = Some m \<and>
          map_of kvs ''mix_ratio'' = Some x \<and>
          (map_of kvs ''secondary_language'' = None \<or>
           map_of kvs ''secondary_language'' = Some JNull) \<longrightarrow>
            detect_language client text =
              \<lparr>primary_language = l, secondary_language = None, confidence = c,
               is_code_mixed = m, mix_ratio = x\<rparr>)"
proof (intro conjI impI)
  assume "k \<in> {''primary_language'', ''confidence'', ''is_code_mixed'', ''mix_ratio''} \<and>
          map_of kvs k = None"
  then have "\<not> accepted (JDict kvs)"
    by auto
  then obtain e where "build_result (JDict kvs) = Inl e"
    using not_accepted_build_result by blast
  with assms show "detect_language client text = fallback_result"
    by (simp add: detect_language_cases)
next
  assume "map_of kvs ''primary_language'' = Some p \<and> SouthIndianLanguage_of p = Inr l \<and>
          map_of kvs ''confidence'' = Some c \<and>
          map_of kvs ''is_code_mixed'' = Some m \<and>
          map_of kvs ''mix_ratio'' = Some x \<and>
          (map_of kvs ''secondary_language'' = None \<or>
           map_of kvs ''secondary_language'' = Some JNull)"
  with assms show "detect_language client text =
              \<lparr>primary_language = l, secondary_language = None, confidence = c,
               is_code_mixed = m, mix_ratio = x\<rparr>"
    by (auto simp: detect_language_cases build_result_def and_then_def)
qed

theorem detect_language_keys_witness:
  "detect_language no_confidence_service ''Njan office-il aanu'' = fallback_result \<and>
   detect_language no_secondary_service ''Njan office-il aanu'' =
     \<lparr>primary_language = MALAYALAM, secondary_language = None, confidence = JFloat 0.8,
      is_code_mixed = JBool True, mix_ratio = JFloat 0.5\<rparr>"
proof -
  have a: "no_confidence_service (detection_messages ''Njan office-il aanu'') =
      Inr (JDict [(''primary_language'', JStr ''malayalam''),
                  (''secondary_language'', JStr ''english''),
                  (''is_code_mixed'', JBool True),
                  (''mix_ratio'', JFloat 0.5)])"
    by (simp add: no_confidence_service_def)
  have b: "no_secondary_service (detection_messages ''Njan office-il aanu'') =
      Inr (JDict [(''primary_language'', JStr ''malayalam''),
                  (''confidence'', JFloat 0.8),
                  (''is_code_mixed'', JBool True),
                  (''mix_ratio'', JFloat 0.5)])"
    by (simp add: no_secondary_service_def)
  show ?thesis
    using
      detect_language_keys [of no_confidence_service "''Njan office-il aanu''"
        "[(''primary_language'', JStr ''malayalam''),
          (''secondary_language'', JStr ''english''),
          (''is_code_mixed'', JBool True),
          (''mix_ratio'', JFloat 0.5)]" "''confidence''", OF a]
      detect_language_keys [of no_secondary_service "''Njan office-il aanu''"
        "[(''primary_language'', JStr ''malayalam''),
          (''confidence'', JFloat 0.8),
          (''is_code_mixed'', JBool True),
          (''mix_ratio'', JFloat 0.5)]" "''confidence''"
        "JStr ''malayalam''" MALAYALAM "JFloat 0.8" "JBool True" "JFloat 0.5", OF b]
    by simp
qed

section \<open>The policy builder: \<^verbatim>\<open>create_system_prompt\<close>\<close>

lemma code_mixed_neq_english: "code_mixed_prompt v g c f \<noteq> english_prompt"
  by (simp add: code_mixed_prompt_def english_prompt_def)

lemma code_mixed_neq_regional: "code_mixed_prompt v g c f \<noteq> regional_prompt w"
  by (simp add: code_mixed_prompt_def regional_prompt_def)

lemma regional_neq_english: "regional_prompt (language_value p) \<noteq> english_prompt"
  by (cases p) (simp_all add: regional_prompt_def english_prompt_def)

text \<open>The three directives differ, so a directive determines its branch.\<close>

lemma branch_directive_inj:
  assumes "branch_directive b p = branch_directive b' p"
  shows "b = b'"
proof (cases b; cases b')
  assume "b = CodeMixedBlend" "b' = PlainEnglish"
  with assms code_mixed_neq_english show ?thesis
    by (simp only: branch_directive.simps)
next
  assume "b = CodeMixedBlend" "b' = RegionalBlend"
  with assms code_mixed_neq_regional show ?thesis
    by (simp only: branch_directive.simps)
next
  assume "b = PlainEnglish" "b' = CodeMixedBlend"
  with assms code_mixed_neq_english show ?thesis
    by (simp only: branch_directive.simps) metis
next
  assume "b = PlainEnglish" "b' = RegionalBlend"
  with assms regional_neq_english show ?thesis
    by (simp only: branch_directive.simps) metis
next
  assume "b = RegionalBlend" "b' = CodeMixedBlend"
  with assms code_mixed_neq_regional show ?thesis
    by (simp only: branch_directive.simps) metis
next
  assume "b = RegionalBlend" "b' = PlainEnglish"
  with assms regional_neq_english show ?thesis
    by (simp only: branch_directive.simps)
qed simp_all

lemma create_system_prompt_spec:
  "create_system_prompt d =
     branch_directive (spec_branch (truthy (is_code_mixed d)) (primary_language d = ENGLISH))
       (primary_language d)"
  by (cases "truthy (is_code_mixed d)"; cases "primary_language d = ENGLISH")
     (simp_all add: create_system_prompt_def Let_def)

lemma regional_prompt_blend:
  "\<exists>pre post. regional_prompt v = pre @ ''Respond in a mix of '' @ v @ '' and English'' @ post"
  unfolding regional_prompt_def
  apply (rule exI [of _ "''\<newline>'' @
     ''                You are a friendly assistant. The user is speaking in '' @ v @
     ''.\<newline>'' @ ''                ''"])
  apply (rule exI [of _ "'', as this is natural \<newline>'' @
     ''                for South Indian conversations. Use romanized '' @ v @ ''.\<newline>'' @
     ''                ''"])
  apply simp
  done

lemma map_of_cultural_context_None:
  "map_of cultural_context tag = None \<longleftrightarrow> tag = ENGLISH \<or> tag = MIXED"
  by (cases tag) (simp_all add: cultural_context_def)

lemma code_mixed_prompt_nonempty: "code_mixed_prompt v g c f \<noteq> []"
  by (simp add: code_mixed_prompt_def)

lemma create_system_prompt_nonempty: "create_system_prompt d \<noteq> []"
  by (simp add: create_system_prompt_def Let_def code_mixed_prompt_nonempty
        english_prompt_def regional_prompt_def)

text \<open>
  C4. For every detection record, \<^verbatim>\<open>create_system_prompt\<close> returns the directive of
  the branch that the specification's state machine selects from the pair (the record is
  code-mixed, its primary language is English); the directives of the three branches
  differ, so exactly one branch yields the returned directive; and a record that is not
  code-mixed and whose primary language is not English gets the directive that asks for
  a mix of that language and English. The code tests the truthiness of the field
  \<^verbatim>\<open>is_code_mixed\<close>, which for a boolean is the boolean.
\<close>

theorem create_system_prompt_branches:
  "create_system_prompt d =
     branch_directive (spec_branch (truthy (is_code_mixed d)) (primary_language d = ENGLISH))
       (primary_language d) \<and>
   (\<forall>b. branch_directive b (primary_language d) = create_system_prompt d \<longrightarrow>
        b = spec_branch (truthy (is_code_mixed d)) (primary_language d = ENGLISH)) \<and>
   (\<not> truthy (is_code_mixed d) \<and> primary_language d \<noteq> ENGLISH \<longrightarrow>
      create_system_prompt d = regional_prompt (language_value (primary_language d)) \<and>
      (\<exists>pre post. create_system_prompt d =
         pre @ ''Respond in a mix of '' @ language_value (primary_language d) @
         '' and English'' @ post))"
proof (intro conjI allI impI)
  show spec: "create_system_prompt d =
     branch_directive (spec_branch (truthy (is_code_mixed d)) (primary_language d = ENGLISH))
       (primary_language d)"
    by (rule create_system_prompt_spec)
  show "b = spec_branch (truthy (is_code_mixed d)) (primary_language d = ENGLISH)"
    if "branch_directive b (primary_language d) = create_system_prompt d" for b
    using that spec branch_directive_inj by metis
  assume h: "\<not> truthy (is_code_mixed d) \<and> primary_language d \<noteq> ENGLISH"
  then show r: "create_system_prompt d = regional_prompt (language_value (primary_language d))"
    by (simp add: create_system_prompt_def Let_def)
  show "\<exists>pre post. create_system_prompt d =
         pre @ ''Respond in a mix of '' @ language_value (primary_language d) @
         '' and English'' @ post"
    unfolding r by (rule regional_prompt_blend)
qed

theorem create_system_prompt_branches_witness:
  "is_code_mixed pure_tamil_record = JBool False \<and>
   primary_language pure_tamil_record \<noteq> ENGLISH \<and>
   branch_directive RegionalBlend TAMIL = create_system_prompt pure_tamil_record \<and>
   spec_branch (truthy (is_code_mixed pure_tamil_record))
     (primary_language pure_tamil_record = ENGLISH) = RegionalBlend \<and>
   create_system_prompt pure_tamil_record = regional_prompt ''tamil''"
  using create_system_prompt_branches [of pure_tamil_record]
  by (simp add: pure_tamil_record_def)

text \<open>
  C8. The lookup of the cultural context never fails: \<^verbatim>\<open>ENGLISH\<close> and \<^verbatim>\<open>MIXED\<close>, the
  two tags absent from the table, resolve to the empty context, in which every field
  resolves to its default; so \<^verbatim>\<open>create_system_prompt\<close>, a total function with no
  raising operation, yields a directive for every record, and for a code-mixed record
  with an absent tag it is the code-mixed directive built from the defaults.
\<close>

theorem cultural_context_lookup_total:
  "dict_get cultural_context ENGLISH [] = [] \<and>
   dict_get cultural_context MIXED [] = [] \<and>
   (map_of cultural_context tag = None \<longleftrightarrow> tag = ENGLISH \<or> tag = MIXED) \<and>
   (map_of cultural_context tag = None \<longrightarrow>
      dict_get (dict_get cultural_context tag []) ''greeting'' ''Hello'' = ''Hello'' \<and>
      dict_get (dict_get cultural_context tag []) ''culture'' ''General South Indian'' =
        ''General South Indian'' \<and>
      dict_get (dict_get cultural_context tag []) ''food'' ''South Indian cuisine'' =
        ''South Indian cuisine'') \<and>
   (map_of cultural_context (primary_language d) = None \<and> truthy (is_code_mixed d) \<longrightarrow>
      create_system_prompt d =
        code_mixed_prompt (language_value (primary_language d))
          ''Hello'' ''General South Indian'' ''South Indian cuisine'') \<and>
   create_system_prompt d \<noteq> []"
proof (intro conjI impI)
  have dflt: "dict_get (dict_get cultural_context t []) k v = v"
    if "map_of cultural_context t = None" for t and k v :: string
    using that by (simp add: dict_get_def)
  show "dict_get cultural_context ENGLISH [] = []"
    by (simp add: dict_get_def cultural_context_def)
  show "dict_get cultural_context MIXED [] = []"
    by (simp add: dict_get_def cultural_context_def)
  show "(map_of cultural_context tag = None) = (tag = ENGLISH \<or> tag = MIXED)"
    by (rule map_of_cultural_context_None)
  show "create_system_prompt d \<noteq> []"
    by (rule create_system_prompt_nonempty)
  show "dict_get (dict_get cultural_context tag []) ''greeting'' ''Hello'' = ''Hello''"
       "dict_get (dict_get cultural_context tag []) ''culture'' ''General South Indian'' =
          ''General South Indian''"
       "dict_get (dict_get cultural_context tag []) ''food'' ''South Indian cuisine'' =
          ''South Indian cuisine''"
    if "map_of cultural_context tag = None"
    using that by (simp_all only: dflt)
  show "create_system_prompt d =
        code_mixed_prompt (language_value (primary_language d))
          ''Hello'' ''General South Indian'' ''South Indian cuisine''"
    if "map_of cultural_context (primary_language d) = None \<and> truthy (is_code_mixed d)"
    using that by (simp add: create_system_prompt_def Let_def dflt)
qed

theorem cultural_context_lookup_total_witness:
  "map_of cultural_context ENGLISH = None \<and>
   dict_get (dict_get cultural_context ENGLISH []) ''greeting'' ''Hello'' = ''Hello'' \<and>
   map_of cultural_context (primary_language mixed_tag_record) = None \<and>
   truthy (is_code_mixed mixed_tag_record) \<and>
   create_system_prompt mixed_tag_record =
     code_mixed_prompt ''mixed'' ''Hello'' ''General South Indian'' ''South Indian cuisine''"
  using cultural_context_lookup_total [of ENGLISH mixed_tag_record]
  by (simp add: mixed_tag_record_def map_of_cultural_context_None dict_get_def)

section \<open>The conversation session: \<^verbatim>\<open>generate_response\<close>\<close>

lemma generate_response_success:
  assumes "generation_succeeds env u h"
  shows "\<exists>reply. snd (generate_response env u h) =
           h @ [\<lparr>role = ''user'', content = Some u\<rparr>,
                \<lparr>role = ''assistant'', content = reply\<rparr>]"
  using assms
  by (auto simp: generation_succeeds_def generate_response_def Let_def split: sum.splits)

lemma generate_response_failure:
  assumes "\<not> generation_succeeds env u h"
  shows "snd (generate_response env u h) = h @ [\<lparr>role = ''user'', content = Some u\<rparr>]"
  using assms
  by (auto simp: generation_succeeds_def generate_response_def Let_def split: sum.splits)

lemma length_turns_of:
  "length rs = length calls \<Longrightarrow> length (turns_of calls rs) = 2 * length calls"
  by (induction calls rs rule: turns_of.induct) auto

text \<open>
  A session in which every generation step succeeds extends the history it starts from
  by the turns of its calls, in call order.
\<close>

lemma run_session_all_succeed:
  "all_succeed calls h \<Longrightarrow>
     \<exists>rs. length rs = length calls \<and> run_session calls h = h @ turns_of calls rs"
proof (induction calls arbitrary: h)
  case Nil
  then show ?case by simp
next
  case (Cons call calls)
  obtain env u where call: "call = (env, u)" by (cases call)
  from Cons.prems call have ok: "generation_succeeds env u h"
    and rest: "all_succeed calls (snd (generate_response env u h))"
    by simp_all
  from generate_response_success [OF ok] obtain reply where
    step: "snd (generate_response env u h) =
             h @ [\<lparr>role = ''user'', content = Some u\<rparr>,
                  \<lparr>role = ''assistant'', content = reply\<rparr>]"
    by blast
  from Cons.IH [OF rest] obtain rs where
    rs: "length rs = length calls"
        "run_session calls (snd (generate_response env u h)) =
           snd (generate_response env u h) @ turns_of calls rs"
    by blast
  have "length (reply # rs) = length (call # calls)"
    using rs by simp
  moreover have "run_session (call # calls) h = h @ turns_of (call # calls) (reply # rs)"
    using rs step call by simp
  ultimately show ?case by blast
qed

lemma last_ten_suffix: "suffix (last_ten h) h"
  by (simp add: last_ten_def suffix_drop)

lemma length_last_ten: "length (last_ten h) = min 10 (length h)"
  by (simp add: last_ten_def)

lemma last_ten_nth: "i < length (last_ten h) \<Longrightarrow> last_ten h ! i = h ! (length h - 10 + i)"
  by (simp add: last_ten_def)

text \<open>
  C5. From the empty history, a session of N calls whose generation steps all succeed
  leaves a history of length 2N: for each call, in call order, its user turn followed by
  its assistant turn. A call whose generation step succeeds appends these two turns to
  the history it found, and a call whose generation step fails appends the user turn
  only, so the length grows by exactly 1; earlier turns are never changed.
\<close>

theorem history_growth:
  "(all_succeed calls [] \<longrightarrow>
      length (run_session calls []) = 2 * length calls \<and>
      (\<exists>rs. length rs = length calls \<and> run_session calls [] = turns_of calls rs)) \<and>
   (generation_succeeds env u h \<longrightarrow>
      (\<exists>reply. snd (generate_response env u h) =
         h @ [\<lparr>role = ''user'', content = Some u\<rparr>,
              \<lparr>role = ''assistant'', content = reply\<rparr>])) \<and>
   (\<not> generation_succeeds env u h \<longrightarrow>
      snd (generate_response env u h) = h @ [\<lparr>role = ''user'', content = Some u\<rparr>] \<and>
      length (snd (generate_response env u h)) = length h + 1)"
proof (intro conjI impI)
  assume "all_succeed calls []"
  from run_session_all_succeed [OF this] obtain rs where
    rs: "length rs = length calls" "run_session calls [] = turns_of calls rs"
    by auto
  then show "\<exists>rs. length rs = length calls \<and> run_session calls [] = turns_of calls rs"
    by blast
  from rs show "length (run_session calls []) = 2 * length calls"
    by (simp add: length_turns_of)
next
  assume "generation_succeeds env u h"
  then show "\<exists>reply. snd (generate_response env u h) =
         h @ [\<lparr>role = ''user'', content = Some u\<rparr>,
              \<lparr>role = ''assistant'', content = reply\<rparr>]"
    by (rule generate_response_success)
next
  assume f: "\<not> generation_succeeds env u h"
  then show s: "snd (generate_response env u h) = h @ [\<lparr>role = ''user'', content = Some u\<rparr>]"
    by (rule generate_response_failure)
  show "length (snd (generate_response env u h)) = length h + 1"
    unfolding s by simp
qed

theorem history_growth_witness:
  "all_succeed two_calls [] \<and>
   length (run_session two_calls []) = 4 \<and>
   generation_succeeds working_env ''Vanakkam'' [] \<and>
   \<not> generation_succeeds broken_env ''Saptiya?'' short_history \<and>
   length (snd (generate_response broken_env ''Saptiya?'' short_history)) = 4"
proof -
  have ok: "generation_succeeds working_env v k" for v k
    by (simp add: generation_succeeds_def working_env_def answering_chat_def)
  have a: "all_succeed two_calls []"
    by (simp add: two_calls_def ok)
  have b: "\<not> generation_succeeds broken_env ''Saptiya?'' short_history"
    by (simp add: generation_succeeds_def broken_env_def failing_chat_def)
  have c: "length two_calls = 2" "length short_history = 3"
    by (simp_all add: two_calls_def short_history_def)
  show ?thesis
    using a b c ok [of "''Vanakkam''" "[]"]
      history_growth [of two_calls broken_env "''Saptiya?''" short_history]
    by simp
qed

text \<open>
  C6. In every call of \<^verbatim>\<open>generate_response\<close>, the request sent to the generation
  service is the directive as a system message followed by the last ten turns of the
  history (which already holds the new user turn): a suffix of the history that has
  exactly ten turns, each at its original position, when the history has more than ten,
  and the whole history otherwise. It is the answer of the service to this very request
  that decides the call: when the service answers it with a reply, that reply is the
  text of the response and the content of the assistant turn appended; when the service
  raises on it, the response is the apology; and a service that agrees with the given one
  on this request gives the same result.
\<close>

theorem generation_window:
  \<open>generation_messages directive h =
     \<lparr>role = ''system'', content = Some directive\<rparr> # last_ten h \<and>
   suffix (last_ten h) h \<and>
   (10 < length h \<longrightarrow>
      length (last_ten h) = 10 \<and>
      (\<forall>i<10. last_ten h ! i = h ! (length h - 10 + i))) \<and>
   (length h \<le> 10 \<longrightarrow> last_ten h = h) \<and>
   (f (generation_messages
        (create_system_prompt (detect_language (detector_client env) u))
        (hist @ [\<lparr>role = ''user'', content = Some u\<rparr>])) =
    chat_client env (generation_messages
        (create_system_prompt (detect_language (detector_client env) u))
        (hist @ [\<lparr>role = ''user'', content = Some u\<rparr>])) \<longrightarrow>
      generate_response (env\<lparr>chat_client := f\<rparr>) u hist = generate_response env u hist) \<and>
   (chat_client env
      (\<lparr>role = ''system'',
        content = Some (create_system_prompt (detect_language (detector_client env) u))\<rparr> #
       last_ten (hist @ [\<lparr>role = ''user'', content = Some u\<rparr>])) = Inr reply \<longrightarrow>
      response_text (fst (generate_response env u hist)) = reply \<and>
      snd (generate_response env u hist) =
        hist @ [\<lparr>role = ''user'', content = Some u\<rparr>,
                \<lparr>role = ''assistant'', content = reply\<rparr>]) \<and>
   (chat_client env
      (\<lparr>role = ''system'',
        content = Some (create_system_prompt (detect_language (detector_client env) u))\<rparr> #
       last_ten (hist @ [\<lparr>role = ''user'', content = Some u\<rparr>])) = Inl e \<longrightarrow>
      response_text (fst (generate_response env u hist)) =
        Some ''Sorry, I'm having trouble right now. Please try again!'' \<and>
      snd (generate_response env u hist) = hist @ [\<lparr>role = ''user'', content = Some u\<rparr>])\<close>
proof (intro conjI impI allI)
  show "generation_messages directive h =
     \<lparr>role = ''system'', content = Some directive\<rparr> # last_ten h"
    by (simp add: generation_messages_def)
  show "suffix (last_ten h) h" by (rule last_ten_suffix)
  show "length (last_ten h) = 10" if "10 < length h"
    using that by (simp add: length_last_ten)
  show "last_ten h ! i = h ! (length h - 10 + i)" if "10 < length h" "i < 10" for i
    using that by (simp add: last_ten_nth length_last_ten)
  show "last_ten h = h" if "length h \<le> 10"
    using that by (simp add: last_ten_def)
  show "generate_response (env\<lparr>chat_client := f\<rparr>) u hist = generate_response env u hist"
    if "f (generation_messages
        (create_system_prompt (detect_language (detector_client env) u))
        (hist @ [\<lparr>role = ''user'', content = Some u\<rparr>])) =
    chat_client env (generation_messages
        (create_system_prompt (detect_language (detector_client env) u))
        (hist @ [\<lparr>role = ''user'', content = Some u\<rparr>]))"
    using that by (simp add: generate_response_def Let_def split: sum.splits)
next
  assume ok: "chat_client env
      (\<lparr>role = ''system'',
        content = Some (create_system_prompt (detect_language (detector_client env) u))\<rparr> #
       last_ten (hist @ [\<lparr>role = ''user'', content = Some u\<rparr>])) = Inr reply"
  then show "response_text (fst (generate_response env u hist)) = reply"
    by (simp add: generate_response_def generation_messages_def Let_def)
  from ok show "snd (generate_response env u hist) =
        hist @ [\<lparr>role = ''user'', content = Some u\<rparr>,
                \<lparr>role = ''assistant'', content = reply\<rparr>]"
    by (simp add: generate_response_def generation_messages_def Let_def)
next
  assume bad: "chat_client env
      (\<lparr>role = ''system'',
        content = Some (create_system_prompt (detect_language (detector_client env) u))\<rparr> #
       last_ten (hist @ [\<lparr>role = ''user'', content = Some u\<rparr>])) = Inl e"
  then show \<open>response_text (fst (generate_response env u hist)) =
        Some ''Sorry, I'm having trouble right now. Please try again!''\<close>
    by (simp add: generate_response_def generation_messages_def Let_def)
  from bad show "snd (generate_response env u hist) =
        hist @ [\<lparr>role = ''user'', content = Some u\<rparr>]"
    by (simp add: generate_response_def generation_messages_def Let_def)
qed

theorem generation_window_witness:
  \<open>10 < length long_history \<and>
   length (last_ten long_history) = 10 \<and>
   last_ten long_history ! 0 = long_history ! 3 \<and>
   last_ten long_history ! 9 = long_history ! 12 \<and>
   length short_history \<le> 10 \<and>
   last_ten short_history = short_history \<and>
   generate_response (working_env\<lparr>chat_client := bounded_chat\<rparr>) ''Saptiya?'' long_history =
     generate_response working_env ''Saptiya?'' long_history \<and>
   response_text
     (fst (generate_response (working_env\<lparr>chat_client := bounded_chat\<rparr>)
        ''Saptiya?'' long_history)) = Some ''Vanakkam! Naan nalla irukken.'' \<and>
   length (snd (generate_response (working_env\<lparr>chat_client := bounded_chat\<rparr>)
        ''Saptiya?'' long_history)) = 15 \<and>
   response_text (fst (generate_response broken_env ''Saptiya?'' long_history)) =
     Some ''Sorry, I'm having trouble right now. Please try again!''\<close>
proof -
  have a: "length long_history = 13" "length short_history = 3"
    by (simp_all add: long_history_def short_history_def)
  have b: "bounded_chat (generation_messages p (long_history @ [m])) =
           chat_client working_env (generation_messages p (long_history @ [m]))" for p m
    by (simp add: bounded_chat_def working_env_def answering_chat_def
          generation_messages_def last_ten_def a)
  have c: "chat_client (working_env\<lparr>chat_client := bounded_chat\<rparr>)
             (s # last_ten (long_history @ [m])) = Inr (Some ''Vanakkam! Naan nalla irukken.'')"
    for s m
    by (simp add: bounded_chat_def last_ten_def a)
  have d: "chat_client broken_env msgs = Inl APIError" for msgs
    by (simp add: broken_env_def failing_chat_def)
  show ?thesis
    using a b c d
      generation_window [of "''directive''" long_history bounded_chat working_env
        "''Saptiya?''" long_history "Some ''Vanakkam! Naan nalla irukken.''" APIError]
      generation_window [of "''directive''" short_history bounded_chat
        "working_env\<lparr>chat_client := bounded_chat\<rparr>"
        "''Saptiya?''" long_history "Some ''Vanakkam! Naan nalla irukken.''" APIError]
      generation_window [of "''directive''" short_history bounded_chat broken_env
        "''Saptiya?''" long_history "Some ''Vanakkam! Naan nalla irukken.''" APIError]
    by simp
qed

text \<open>
  C7. When the generation step of a call fails, the response returned has the fixed
  apology as its text, \<^verbatim>\<open>ENGLISH\<close> as its response language whatever language was
  detected, and as its detection record the record \<^verbatim>\<open>detect_language\<close> computed for
  the input of that call.
\<close>

theorem generation_failure_response:
  assumes "\<not> generation_succeeds env u h"
  shows \<open>fst (generate_response env u h) =
           \<lparr>response_text = Some ''Sorry, I'm having trouble right now. Please try again!'',
            detected_language = detect_language (detector_client env) u,
            response_language = ENGLISH,
            processing_time = time_end env - time_start env\<rparr>\<close>
  using assms
  by (auto simp: generation_succeeds_def generate_response_def Let_def split: sum.splits)

theorem generation_failure_response_witness:
  \<open>\<not> generation_succeeds broken_env ''Enna panra?'' short_history \<and>
   primary_language (detect_language (detector_client broken_env) ''Enna panra?'') = TAMIL \<and>
   response_language (fst (generate_response broken_env ''Enna panra?'' short_history)) =
     ENGLISH \<and>
   response_text (fst (generate_response broken_env ''Enna panra?'' short_history)) =
     Some ''Sorry, I'm having trouble right now. Please try again!'' \<and>
   detected_language (fst (generate_response broken_env ''Enna panra?'' short_history)) =
     detect_language tamil_mixed_service ''Enna panra?''\<close>
proof -
  have a: "\<not> generation_succeeds broken_env ''Enna panra?'' short_history"
    by (simp add: generation_succeeds_def broken_env_def failing_chat_def)
  have b: "primary_language (detect_language (detector_client broken_env) ''Enna panra?'') = TAMIL"
    by (simp add: broken_env_def tamil_mixed_service_def detect_language_cases
          build_result_def and_then_def)
  have c: "detector_client broken_env = tamil_mixed_service"
    by (simp add: broken_env_def)
  show ?thesis
    using a b c generation_failure_response [OF a] by simp
qed

section \<open>The enhancement pass: \<^verbatim>\<open>enhance_text_for_tts\<close>\<close>

text \<open>
  C9. For every phrase, when the inference service fails, \<^verbatim>\<open>enhance_text_for_tts\<close>
  returns the text of the phrase unchanged; being a total function into strings, with
  every exception of its \<^verbatim>\<open>try\<close> block caught, it never raises.
\<close>

theorem enhance_failure_returns_original:
  assumes "client (enhancement_messages phrase) = Inl e"
  shows "enhance_text_for_tts client phrase = phrase_text phrase"
  using assms by (simp add: enhance_text_for_tts_def enhance_body_def and_then_def)

theorem enhance_failure_returns_original_witness:
  "failing_chat (enhancement_messages sample_phrase) = Inl APIError \<and>
   enhance_text_for_tts failing_chat sample_phrase = ''Office-la meeting irukku''"
proof -
  have a: "failing_chat (enhancement_messages sample_phrase) = Inl APIError"
    by (simp add: failing_chat_def)
  show ?thesis
    using a enhance_failure_returns_original [of failing_chat sample_phrase APIError, OF a]
    by (simp add: sample_phrase_def)
qed

end
